theory Spec2Isabelle
  imports Complex_Main "HOL-Library.AList" "HOL-Library.Multiset"
begin

section \<open>Data model\<close>

text \<open>
  JavaScript strings are modelled as \<open>string\<close>, each \<open>char\<close> standing for one code unit
  below U+0100. Wallet addresses are hexadecimal tokens, well inside that range.

  Every value object the views handle carries an \<open>address\<close>; the record extensions below
  mirror the structural typing of the source (\<open>interface SelectedWallet\<close> in App.tsx, the
  fields of \<open>Trader\<close> and \<open>TradeStats\<close> that the components read).
\<close>

type_synonym WalletAddress = string

record HasAddress =
  address :: WalletAddress

record SelectedWallet = HasAddress +
  source :: string

section \<open>Wallet Aggregator (App.tsx)\<close>

subsection \<open>Case-insensitive comparison\<close>

text \<open>
  \<open>String.prototype.toLowerCase\<close> restricted to code units below U+0100: the letters
  A..Z and the Latin-1 capitals U+00C0..U+00DE (without the multiplication sign U+00D7)
  move up by 32, everything else stays.
\<close>

definition lower_unit :: "char \<Rightarrow> char" where
  "lower_unit c =
     (let n = (of_char c :: nat)
      in if (65 \<le> n \<and> n \<le> 90) \<or> (192 \<le> n \<and> n \<le> 222 \<and> n \<noteq> 215)
         then char_of (n + 32) else c)"

definition toLowerCase :: "string \<Rightarrow> string" where
  "toLowerCase s = map lower_unit s"

subsection \<open>handleSelectWallet, removeWallet, clearAllWallets\<close>

text \<open>
  \<^verbatim>\<open>
  const handleSelectWallet = (address: string, source: string) => {
    const exists = selectedWallets.find(w => w.address.toLowerCase() === address.toLowerCase());
    if (!exists) {
      setSelectedWallets(prev => [...prev, { address, source }]);
    }
  };
  \<close>
  The handler reads \<open>selectedWallets\<close>, the list of the render that created it, and
  queues an updater on the state. The model keeps both: the first argument is the
  rendered list the membership test runs on, the last one the list the queued updater
  is applied to. The result is the list after the updater (or the untouched list when
  nothing was queued).
\<close>

definition handleSelectWallet ::
  "SelectedWallet list \<Rightarrow> string \<Rightarrow> string \<Rightarrow> SelectedWallet list \<Rightarrow> SelectedWallet list" where
  "handleSelectWallet selectedWallets addr src prev =
     (case find (\<lambda>w. toLowerCase (address w) = toLowerCase addr) selectedWallets of
        None \<Rightarrow> prev @ [\<lparr>address = addr, source = src\<rparr>]
      | Some _ \<Rightarrow> prev)"

definition removeWallet :: "string \<Rightarrow> SelectedWallet list \<Rightarrow> SelectedWallet list" where
  "removeWallet addr prev = filter (\<lambda>w. toLowerCase (address w) \<noteq> toLowerCase addr) prev"

definition clearAllWallets :: "SelectedWallet list" where
  "clearAllWallets = []"

text \<open>
  The calls issued by one event handler of a child view (a single call from a toggle,
  one call per item from the \<open>forEach\<close> of the select-all operations): every call
  closes over the same rendered list \<open>ws\<close>, and the queued updaters run one after the
  other, starting from \<open>ws\<close>.
\<close>

definition add_batch ::
  "SelectedWallet list \<Rightarrow> (string \<times> string) list \<Rightarrow> SelectedWallet list" where
  "add_batch ws calls = foldl (\<lambda>prev (addr, src). handleSelectWallet ws addr src prev) ws calls"

text \<open>
  App.tsx hands each view the callback \<open>(addr) => handleSelectWallet(addr, '<view>')\<close>:
  the calls of \<open>onSelectWallet\<close> made by a view become calls of the handler with the
  label of that view.
\<close>

definition onSelectWallet_calls :: "string \<Rightarrow> WalletAddress list \<Rightarrow> (string \<times> string) list" where
  "onSelectWallet_calls src addrs = map (\<lambda>addr. (addr, src)) addrs"

section \<open>Selection Store (the per-view selection sets)\<close>

text \<open>
  A view holds \<open>selectedTraders : Set<string>\<close>, compared by exact string equality.
  Each operation below returns the set passed to the state setter together with the
  calls of \<open>onSelectWallet\<close> it made, in program order. App.tsx supplies the callback
  to all four views.

  \<^verbatim>\<open>
  const toggleSelectTrader = (address: string) => {
    const newSelected = new Set(selectedTraders);
    if (newSelected.has(address)) {
      newSelected.delete(address);
    } else {
      newSelected.add(address);
      onSelectWallet?.(address);
    }
    setSelectedTraders(newSelected);
  };
  \<close>
  The same function body appears in TradeStatistics, TopTraders, LivePositions and
  (as \<open>toggleSelectWhale\<close>) in WhaleDetection.
\<close>

definition toggleSelectTrader ::
  "WalletAddress set \<Rightarrow> WalletAddress \<Rightarrow> WalletAddress set \<times> WalletAddress list" where
  "toggleSelectTrader selectedTraders addr =
     (if addr \<in> selectedTraders then (selectedTraders - {addr}, [])
      else (insert addr selectedTraders, [addr]))"

text \<open>A sequence of toggle events, each one a handler run of its own.\<close>

fun toggles :: "WalletAddress list \<Rightarrow> WalletAddress set \<Rightarrow> WalletAddress set \<times> WalletAddress list" where
  "toggles [] sel = (sel, [])"
| "toggles (a # as) sel =
     (let (sel1, n1) = toggleSelectTrader sel a;
          (sel2, n2) = toggles as sel1
      in (sel2, n1 @ n2))"

text \<open>
  The toggles of a sequence that find their address toggled an even number of times
  before, that is, the toggles that add it. \<open>seen\<close> is the part of the sequence already
  processed.
\<close>

fun adding_toggles :: "WalletAddress list \<Rightarrow> WalletAddress list \<Rightarrow> WalletAddress list" where
  "adding_toggles seen [] = []"
| "adding_toggles seen (a # as) =
     (if even (count_list seen a) then [a] else []) @ adding_toggles (seen @ [a]) as"

text \<open>
  \<^verbatim>\<open>
  const selectAllVisible = () => {
    const currentData = getCurrentData();
    const newSelected = new Set(selectedTraders);
    currentData.forEach(item => {
      newSelected.add(item.address);
      onSelectWallet?.(item.address);
    });
    setSelectedTraders(newSelected);
  };
  \<close>
  (TradeStatistics). The loop body is \<open>selectAllVisible_step\<close>.
\<close>

definition selectAllVisible_step ::
  "WalletAddress set \<times> WalletAddress list \<Rightarrow> 'a HasAddress_scheme
   \<Rightarrow> WalletAddress set \<times> WalletAddress list" where
  "selectAllVisible_step acc item =
     (case acc of (newSelected, calls) \<Rightarrow> (insert (address item) newSelected, calls @ [address item]))"

definition selectAllVisible ::
  "'a HasAddress_scheme list \<Rightarrow> WalletAddress set \<Rightarrow> WalletAddress set \<times> WalletAddress list" where
  "selectAllVisible currentData selectedTraders =
     foldl selectAllVisible_step (selectedTraders, []) currentData"

text \<open>
  \<^verbatim>\<open>
  const selectAll = () => {
    setSelectedTraders(new Set(traders.map(t => t.address)));
    traders.forEach(t => onSelectWallet?.(t.address));
  };
  const deselectAll = () => {
    setSelectedTraders(new Set());
  };
  \<close>
  (TopTraders; WhaleDetection has the same two functions over \<open>whales\<close>). The set
  held before is not read: it is an argument here only to give the operation the shape
  of the others.
\<close>

definition selectAll ::
  "'a HasAddress_scheme list \<Rightarrow> WalletAddress set \<Rightarrow> WalletAddress set \<times> WalletAddress list" where
  "selectAll traders selectedTraders =
     (set (map address traders), foldl (\<lambda>calls t. calls @ [address t]) [] traders)"

definition deselectAll :: "WalletAddress set \<Rightarrow> WalletAddress set \<times> WalletAddress list" where
  "deselectAll selectedTraders = ({}, [])"

text \<open>
  What the specification announces for select-all: one notification for each address
  of the sequence that is not selected yet, at its first occurrence.
\<close>

fun newly_added :: "WalletAddress set \<Rightarrow> WalletAddress list \<Rightarrow> WalletAddress list" where
  "newly_added S [] = []"
| "newly_added S (a # as) = (if a \<in> S then newly_added S as else a # newly_added (insert a S) as)"

section \<open>Wallet Aggregator: export (App.tsx, saveWalletsToFile)\<close>

text \<open>
  What the browser supplies: the clock (\<open>Date.now()\<close>, an integral number of
  milliseconds), \<open>new Date().toISOString()\<close> (called once per CSV row; \<open>isoAt i\<close> is
  the string of the call made for row \<open>i\<close>) and \<open>JSON.stringify(_, null, 2)\<close>.
\<close>

record Platform =
  now :: int
  isoAt :: "nat \<Rightarrow> string"
  stringify :: "SelectedWallet list \<Rightarrow> string"

record Download =
  filename :: string
  mimeType :: string
  content :: string

text \<open>An integer inside a template literal: its decimal digits, with a sign when negative.\<close>

definition digit_char :: "nat \<Rightarrow> char" where
  "digit_char d = char_of (48 + d)"

function show_nat :: "nat \<Rightarrow> string" where
  "show_nat n = (if n < 10 then [digit_char n] else show_nat (n div 10) @ [digit_char (n mod 10)])"
  by pat_completeness auto
termination
  by (relation "measure id") auto

declare show_nat.simps [simp del]

definition show_int :: "int \<Rightarrow> string" where
  "show_int i = (if i < 0 then CHR ''-'' # show_nat (nat (- i)) else show_nat (nat i))"

text \<open>
  Reading a decimal numeral back (\<open>Number(text)\<close> on such a string); used to state what
  the \<open><epoch-ms>\<close> part of a file name is.
\<close>

definition digit_value :: "char \<Rightarrow> nat" where
  "digit_value c = of_char c - 48"

definition read_nat :: "string \<Rightarrow> nat" where
  "read_nat s = foldl (\<lambda>acc c. 10 * acc + digit_value c) 0 s"

definition read_int :: "string \<Rightarrow> int" where
  "read_int s =
     (if s \<noteq> [] \<and> hd s = CHR ''-'' then - int (read_nat (tl s)) else int (read_nat s))"

definition newline :: string where
  "newline = [CHR 0x0A]"

text \<open>\<open>Array.prototype.join\<close> on an array of strings.\<close>

fun join :: "string \<Rightarrow> string list \<Rightarrow> string" where
  "join sep [] = []"
| "join sep [x] = x"
| "join sep (x # y # ys) = x @ sep @ join sep (y # ys)"

text \<open>
  Reading a text back line by line (\<open>String.prototype.split\<close> with a one-character
  separator); used to state what the txt export contains.
\<close>

fun split_on :: "char \<Rightarrow> string \<Rightarrow> string list" where
  "split_on c [] = [[]]"
| "split_on c (x # xs) =
     (if x = c then [] # split_on c xs
      else (case split_on c xs of [] \<Rightarrow> [[x]] | l # ls \<Rightarrow> (x # l) # ls))"

text \<open>
  \<^verbatim>\<open>
  const saveWalletsToFile = (format: 'txt' | 'csv' | 'json') => {
    if (selectedWallets.length === 0) return;
    let content: string; let filename: string; let mimeType: string;
    if (format === 'json') {
      content = JSON.stringify(selectedWallets, null, 2);
      filename = `hyperliquid_wallets_${Date.now()}.json`;
      mimeType = 'application/json';
    } else if (format === 'csv') {
      content = 'Address,Source,Selected At\n';
      selectedWallets.forEach(w => {
        content += `${w.address},${w.source},${new Date().toISOString()}\n`;
      });
      filename = `hyperliquid_wallets_${Date.now()}.csv`;
      mimeType = 'text/csv';
    } else {
      content = selectedWallets.map(w => w.address).join('\n');
      filename = `wallet_addresses_${Date.now()}.txt`;
      mimeType = 'text/plain';
    }
    const blob = new Blob([content], { type: mimeType });
    ... link.download = filename; ... link.click(); ...
  };
  \<close>
  The parameter type is erased when the program runs and the branches compare strings,
  so \<open>format\<close> is a string here. The result is the file handed to the browser, or
  \<open>None\<close> when the function returns before building one.
\<close>

definition csv_row :: "Platform \<Rightarrow> string \<times> nat \<Rightarrow> SelectedWallet \<Rightarrow> string \<times> nat" where
  "csv_row pf acc w =
     (case acc of (text, i) \<Rightarrow>
        (text @ address w @ '','' @ source w @ '','' @ isoAt pf i @ newline, Suc i))"

definition saveWalletsToFile :: "Platform \<Rightarrow> SelectedWallet list \<Rightarrow> string \<Rightarrow> Download option" where
  "saveWalletsToFile pf selectedWallets format =
     (if length selectedWallets = 0 then None
      else if format = ''json'' then
        Some \<lparr>filename = ''hyperliquid_wallets_'' @ show_int (now pf) @ ''.json'',
              mimeType = ''application/json'',
              content = stringify pf selectedWallets\<rparr>
      else if format = ''csv'' then
        Some \<lparr>filename = ''hyperliquid_wallets_'' @ show_int (now pf) @ ''.csv'',
              mimeType = ''text/csv'',
              content = fst (foldl (csv_row pf) (''Address,Source,Selected At'' @ newline, 0)
                               selectedWallets)\<rparr>
      else
        Some \<lparr>filename = ''wallet_addresses_'' @ show_int (now pf) @ ''.txt'',
              mimeType = ''text/plain'',
              content = join newline (map address selectedWallets)\<rparr>)"





text \<open>
  The events of the aggregator and what one handler run does to the list of selected
  wallets; the second component lists the files emitted. \<open>SelectWallets src addrs\<close> is
  a handler run of the view labelled \<open>src\<close> that calls \<open>onSelectWallet\<close> for \<open>addrs\<close>. \<open>saveWalletsToFile\<close> contains
  no call of \<open>setSelectedWallets\<close>.
\<close>

datatype AppEvent =
    SelectWallets string "WalletAddress list"
  | RemoveWallet string
  | ClearAllWallets
  | SaveWalletsToFile string

fun app_step :: "Platform \<Rightarrow> AppEvent \<Rightarrow> SelectedWallet list \<Rightarrow> SelectedWallet list \<times> Download list" where
  "app_step pf (SelectWallets src addrs) ws = (add_batch ws (onSelectWallet_calls src addrs), [])"
| "app_step pf (RemoveWallet addr) ws = (removeWallet addr ws, [])"
| "app_step pf ClearAllWallets ws = (clearAllWallets, [])"
| "app_step pf (SaveWalletsToFile format) ws =
     (ws, case saveWalletsToFile pf ws format of None \<Rightarrow> [] | Some d \<Rightarrow> [d])"

section \<open>Value objects of the Data Provider\<close>

text \<open>
  The fields the components read; every number is a JavaScript number, taken here as a
  real (finite, not NaN). Whales and live positions are passed through unread by the
  code below and stay type parameters.
\<close>

record Trader = HasAddress +
  pnl :: real
  volume :: real
  pnlRatio :: real

record TradeStats = HasAddress +
  totalTrades :: real
  totalVolume :: real
  winRate :: real
  totalPnl :: real

record ExtendedTradeStats = TradeStats +
  trader :: "Trader option"

section \<open>Sorting with a comparator\<close>

text \<open>
  \<open>Array.prototype.sort(cmp)\<close> is stable: an element goes before another when
  the comparator is negative, and elements that compare equal keep their order.
\<close>

fun insert_by :: "('a \<Rightarrow> 'a \<Rightarrow> real) \<Rightarrow> 'a \<Rightarrow> 'a list \<Rightarrow> 'a list" where
  "insert_by cmp x [] = [x]"
| "insert_by cmp x (y # ys) = (if cmp x y \<le> 0 then x # y # ys else y # insert_by cmp x ys)"

definition sort_by :: "('a \<Rightarrow> 'a \<Rightarrow> real) \<Rightarrow> 'a list \<Rightarrow> 'a list" where
  "sort_by cmp xs = foldr (insert_by cmp) xs []"

section \<open>Trade Statistics: derived rankings (TradeStatistics.tsx)\<close>

text \<open>
  \<open>tradeStats\<close> is a \<open>Map<string, ExtendedTradeStats>\<close>: an association list in insertion
  order; \<open>Map.prototype.set\<close> is \<open>AList.update\<close> (an existing key keeps its place).
  \<^verbatim>\<open>
  const sortedByWinRate = Array.from(tradeStats.values())
    .filter(s => s.totalTrades >= 10)
    .sort((a, b) => b.winRate - a.winRate)
    .slice(0, 20);
  \<close>
\<close>

type_synonym StatsMap = "(string \<times> ExtendedTradeStats) list"



section \<open>Refresh Scheduler: the load functions of the four views\<close>

text \<open>
  A load function is an \<open>async\<close> function; its run is the list of the effects it
  performs, in program order: the state setters it calls, the provider calls it awaits
  and what it writes to the console. A provider call settles with \<open>Inr\<close> of its value
  or rejects with \<open>Inl\<close> of the reason; the fetch functions are arguments, and within
  one run a repeated call with the same argument settles the same way.
\<close>

datatype call =
    FetchLeaderboard nat
  | FetchUserTrades string
  | FetchWhales real
  | FetchLivePositions "string list"

datatype 'd effect =
    SetLoading bool
  | SetError "string option"
  | SetData 'd
  | SetLastUpdate int
  | Await call
  | ConsoleError string string

text \<open>
  The state a view keeps for its fetch lifecycle. TopTraders and WhaleDetection
  declare \<open>loading\<close>, \<open>error\<close> and the fetched array; TradeStatistics declares \<open>loading\<close>
  and the map and has no \<open>error\<close> state; LivePositions declares \<open>loading\<close>, the array
  and \<open>lastUpdate\<close> and has no \<open>error\<close> state. A field a view does not declare is
  never written by its load function.
\<close>

record 'd ViewState =
  data :: 'd
  loading :: bool
  error :: "string option"
  lastUpdate :: int

fun apply_effect :: "'d ViewState \<Rightarrow> 'd effect \<Rightarrow> 'd ViewState" where
  "apply_effect st (SetLoading b) = st\<lparr>loading := b\<rparr>"
| "apply_effect st (SetError e) = st\<lparr>error := e\<rparr>"
| "apply_effect st (SetData d) = st\<lparr>data := d\<rparr>"
| "apply_effect st (SetLastUpdate t) = st\<lparr>lastUpdate := t\<rparr>"
| "apply_effect st (Await c) = st"
| "apply_effect st (ConsoleError m r) = st"

definition run :: "'d effect list \<Rightarrow> 'd ViewState \<Rightarrow> 'd ViewState" where
  "run effs st = foldl apply_effect st effs"

fun is_Await :: "'d effect \<Rightarrow> bool" where
  "is_Await (Await c) = True"
| "is_Await _ = False"

fun is_SetLoading :: "'d effect \<Rightarrow> bool" where
  "is_SetLoading (SetLoading b) = True"
| "is_SetLoading _ = False"

text \<open>The effects performed before the first provider call is issued.\<close>

definition before_fetch :: "'d effect list \<Rightarrow> 'd effect list" where
  "before_fetch effs = takeWhile (\<lambda>e. \<not> is_Await e) effs"

subsection \<open>TopTraders: loadTraders\<close>

text \<open>
  \<^verbatim>\<open>
  const loadTraders = async () => {
    setLoading(true);
    setError(null);
    try {
      const data = await fetchLeaderboard(maxResults);
      let filtered = data;
      if (filterType === 'profitable') {
        filtered = filtered.filter(t => t.pnl > 0);
      } else if (filterType === 'volume') {
        filtered = filtered.filter(t => t.volume > 1000000);
      }
      filtered = filtered.filter(t => t.pnl >= minPnl);
      filtered = [...filtered].sort((a, b) => {
        if (sortBy === 'pnl') return b.pnl - a.pnl;
        if (sortBy === 'volume') return b.volume - a.volume;
        return b.pnlRatio - a.pnlRatio;
      });
      setTraders(filtered.slice(0, maxResults));
    } catch (err) {
      setError('Error loading traders data');
    } finally {
      setLoading(false);
    }
  };
  \<close>
\<close>

datatype FilterType = FilterAll | FilterProfitable | FilterVolume

datatype SortBy = SortPnl | SortVolume | SortPnlRatio

definition filter_traders :: "FilterType \<Rightarrow> Trader list \<Rightarrow> Trader list" where
  "filter_traders filterType fetched =
     (case filterType of
        FilterProfitable \<Rightarrow> filter (\<lambda>t. pnl t > 0) fetched
      | FilterVolume \<Rightarrow> filter (\<lambda>t. volume t > 1000000) fetched
      | FilterAll \<Rightarrow> fetched)"

definition trader_cmp :: "SortBy \<Rightarrow> Trader \<Rightarrow> Trader \<Rightarrow> real" where
  "trader_cmp sortBy a b =
     (if sortBy = SortPnl then pnl b - pnl a
      else if sortBy = SortVolume then volume b - volume a
      else pnlRatio b - pnlRatio a)"

definition loadTraders ::
  "(nat \<Rightarrow> string + Trader list) \<Rightarrow> FilterType \<Rightarrow> SortBy \<Rightarrow> real \<Rightarrow> nat
   \<Rightarrow> Trader list effect list" where
  "loadTraders fetchLeaderboard filterType sortBy minPnl maxResults =
     [SetLoading True, SetError None, Await (FetchLeaderboard maxResults)]
     @ (case fetchLeaderboard maxResults of
          Inr fetched \<Rightarrow>
            [SetData (take maxResults
                        (sort_by (trader_cmp sortBy)
                           (filter (\<lambda>t. pnl t \<ge> minPnl) (filter_traders filterType fetched))))]
        | Inl err \<Rightarrow> [SetError (Some ''Error loading traders data'')])
     @ [SetLoading False]"

subsection \<open>WhaleDetection: loadWhales\<close>

text \<open>
  \<^verbatim>\<open>
  const loadWhales = async () => {
    setLoading(true);
    setError(null);
    try {
      const data = await fetchWhales(minBalance);
      setWhales(data);
    } catch (err) {
      setError('Error loading whale data');
    } finally {
      setLoading(false);
    }
  };
  \<close>
\<close>

definition loadWhales :: "(real \<Rightarrow> string + 'w list) \<Rightarrow> real \<Rightarrow> 'w list effect list" where
  "loadWhales fetchWhales minBalance =
     [SetLoading True, SetError None, Await (FetchWhales minBalance)]
     @ (case fetchWhales minBalance of
          Inr fetched \<Rightarrow> [SetData fetched]
        | Inl err \<Rightarrow> [SetError (Some ''Error loading whale data'')])
     @ [SetLoading False]"

subsection \<open>LivePositions: loadPositions\<close>

text \<open>
  \<^verbatim>\<open>
  const loadPositions = useCallback(async () => {
    setLoading(true);
    try {
      const traders = await fetchLeaderboard(50);
      const addresses = traders.map(t => t.address);
      const livePositions = await fetchLivePositions(addresses);
      setPositions(livePositions);
      setLastUpdate(new Date());
    } catch (error) {
      console.error('Error loading positions:', error);
    } finally {
      setLoading(false);
    }
  }, []);
  \<close>
  \<open>clock\<close> is the time \<open>new Date()\<close> reads.
\<close>

definition loadPositions ::
  "(nat \<Rightarrow> string + Trader list) \<Rightarrow> (string list \<Rightarrow> string + 'p list) \<Rightarrow> int
   \<Rightarrow> 'p list effect list" where
  "loadPositions fetchLeaderboard fetchLivePositions clock =
     [SetLoading True, Await (FetchLeaderboard 50)]
     @ (case fetchLeaderboard 50 of
          Inl err \<Rightarrow> [ConsoleError ''Error loading positions:'' err]
        | Inr traders \<Rightarrow>
            Await (FetchLivePositions (map address traders))
            # (case fetchLivePositions (map address traders) of
                 Inl err \<Rightarrow> [ConsoleError ''Error loading positions:'' err]
               | Inr livePositions \<Rightarrow> [SetData livePositions, SetLastUpdate clock]))
     @ [SetLoading False]"

subsection \<open>TradeStatistics: loadData\<close>

text \<open>
  \<^verbatim>\<open>
  const loadData = async () => {
    setLoading(true);
    try {
      const leaderboardData = await fetchLeaderboard(100);
      const statsMap = new Map<string, ExtendedTradeStats>();
      const addressesToFetch = leaderboardData.slice(0, 30).map(t => t.address);
      for (const address of addressesToFetch) {
        const stats = await fetchUserTrades(address);
        const trader = leaderboardData.find(t => t.address === address);
        statsMap.set(address, { ...stats, trader });
      }
      setTradeStats(statsMap);
    } catch (error) {
      console.error('Error loading data:', error);
    } finally {
      setLoading(false);
    }
  };
  \<close>
  \<open>load_stats\<close> is the \<open>for\<close> loop: it returns the provider calls it awaited and
  either the reason of the first rejection or the finished map.
\<close>

definition with_trader :: "TradeStats \<Rightarrow> Trader option \<Rightarrow> ExtendedTradeStats" where
  "with_trader stats tr =
     \<lparr>address = address stats, totalTrades = totalTrades stats, totalVolume = totalVolume stats,
      winRate = winRate stats, totalPnl = totalPnl stats, trader = tr\<rparr>"

fun load_stats ::
  "(string \<Rightarrow> string + TradeStats) \<Rightarrow> Trader list \<Rightarrow> string list \<Rightarrow> StatsMap
   \<Rightarrow> StatsMap effect list \<times> (string + StatsMap)" where
  "load_stats fetchUserTrades leaderboardData [] statsMap = ([], Inr statsMap)"
| "load_stats fetchUserTrades leaderboardData (a # as) statsMap =
     (case fetchUserTrades a of
        Inl err \<Rightarrow> ([Await (FetchUserTrades a)], Inl err)
      | Inr stats \<Rightarrow>
          (case load_stats fetchUserTrades leaderboardData as
                  (AList.update a
                     (with_trader stats (find (\<lambda>t. address t = a) leaderboardData)) statsMap) of
             (effs, r) \<Rightarrow> (Await (FetchUserTrades a) # effs, r)))"

definition loadData ::
  "(nat \<Rightarrow> string + Trader list) \<Rightarrow> (string \<Rightarrow> string + TradeStats) \<Rightarrow> StatsMap effect list" where
  "loadData fetchLeaderboard fetchUserTrades =
     [SetLoading True, Await (FetchLeaderboard 100)]
     @ (case fetchLeaderboard 100 of
          Inl err \<Rightarrow> [ConsoleError ''Error loading data:'' err]
        | Inr leaderboardData \<Rightarrow>
            (case load_stats fetchUserTrades leaderboardData
                    (map address (take 30 leaderboardData)) [] of
               (effs, Inl err) \<Rightarrow> effs @ [ConsoleError ''Error loading data:'' err]
             | (effs, Inr statsMap) \<Rightarrow> effs @ [SetData statsMap]))
     @ [SetLoading False]"

text \<open>
  The addresses \<open>load_stats\<close> asks the provider about: every address up to and
  including the first one whose call rejects.
\<close>

fun until_rejected :: "('a \<Rightarrow> 'e + 'b) \<Rightarrow> 'a list \<Rightarrow> 'a list" where
  "until_rejected f [] = []"
| "until_rejected f (a # as) = (if isl (f a) then [a] else a # until_rejected f as)"

section \<open>Example inputs\<close>

definition example_platform :: Platform where
  "example_platform =
     \<lparr>now = 1700000000000, isoAt = (\<lambda>i. ''2023-11-14T22:13:20.000Z''), stringify = (\<lambda>ws. ''[]'')\<rparr>"

definition later_platform :: Platform where
  "later_platform =
     \<lparr>now = 1700000086400, isoAt = (\<lambda>i. ''2023-11-14T22:14:46.400Z''), stringify = (\<lambda>ws. ''[]'')\<rparr>"

definition example_traders :: "Trader list" where
  "example_traders =
     [\<lparr>address = ''0xAA'', pnl = 100, volume = 5000, pnlRatio = 2\<rparr>,
      \<lparr>address = ''0xBB'', pnl = 40, volume = 9000, pnlRatio = 1\<rparr>]"

definition failing_leaderboard :: "nat \<Rightarrow> string + Trader list" where
  "failing_leaderboard n = Inl ''network down''"

definition example_leaderboard :: "nat \<Rightarrow> string + Trader list" where
  "example_leaderboard n = Inr example_traders"

definition failing_whales :: "real \<Rightarrow> string + nat list" where
  "failing_whales minBalance = Inl ''network down''"

definition failing_positions :: "string list \<Rightarrow> string + nat list" where
  "failing_positions addresses = Inl ''timeout''"

definition failing_trades :: "string \<Rightarrow> string + TradeStats" where
  "failing_trades a =
     (if a = ''0xBB'' then Inl ''rate limited''
      else Inr \<lparr>address = a, totalTrades = 12, totalVolume = 700, winRate = 55, totalPnl = 10\<rparr>)"

definition example_stats :: StatsMap where
  "example_stats =
     [(''0xAA'', \<lparr>address = ''0xAA'', totalTrades = 12, totalVolume = 700, winRate = 55,
                  totalPnl = 10, trader = None\<rparr>),
      (''0xBB'', \<lparr>address = ''0xBB'', totalTrades = 9, totalVolume = 900, winRate = 90,
                  totalPnl = 30, trader = None\<rparr>),
      (''0xCC'', \<lparr>address = ''0xCC'', totalTrades = 10, totalVolume = 100, winRate = 70,
                  totalPnl = 5, trader = None\<rparr>)]"

text \<open>View states as they stand after an earlier successful fetch.\<close>

definition loaded_traders :: "Trader list ViewState" where
  "loaded_traders = \<lparr>data = example_traders, loading = False, error = None, lastUpdate = 0\<rparr>"

definition loaded_whales :: "nat list ViewState" where
  "loaded_whales = \<lparr>data = [3], loading = False, error = None, lastUpdate = 0\<rparr>"

definition loaded_positions :: "nat list ViewState" where
  "loaded_positions = \<lparr>data = [11, 12], loading = False, error = None, lastUpdate = 5\<rparr>"

definition loaded_stats :: "StatsMap ViewState" where
  "loaded_stats = \<lparr>data = example_stats, loading = False, error = None, lastUpdate = 0\<rparr>"

section \<open>Wallet Aggregator: add\<close>

lemma find_None_iff_lower:
  "(find (\<lambda>w. toLowerCase (address w) = toLowerCase addr) ws = None) =
   (toLowerCase addr \<notin> toLowerCase ` address ` set ws)"
  by (force simp: find_None_iff image_iff)

lemma toLowerCase_0xAB: "toLowerCase ''0xAB'' = ''0xab''"
  by code_simp

lemma toLowerCase_0xab: "toLowerCase ''0xab'' = ''0xab''"
  by code_simp

lemma toLowerCase_examples:
  "toLowerCase ''0xAC'' = ''0xac''"
  "toLowerCase ''ABCDEFGHIJKLMNOPQRSTUVWXYZ'' = ''abcdefghijklmnopqrstuvwxyz''"
  "toLowerCase ''0123456789abcdefxyz@[`{'' = ''0123456789abcdefxyz@[`{''"
  by code_simp+

text \<open>
  The membership test reads the rendered list, the append goes to the list the updater
  receives.
\<close>

lemma handleSelectWallet_cases:
  "handleSelectWallet rendered addr src prev =
     (if toLowerCase addr \<in> toLowerCase ` address ` set rendered then prev
      else prev @ [\<lparr>address = addr, source = src\<rparr>])"
  using find_None_iff_lower [of addr rendered]
  by (cases "find (\<lambda>w. toLowerCase (address w) = toLowerCase addr) rendered")
     (simp_all add: handleSelectWallet_def)

text \<open>A handler run that makes a single call deduplicates against the current list.\<close>

lemma add_batch_single_call:
  "add_batch ws [(addr, src)] =
     (if toLowerCase addr \<in> toLowerCase ` address ` set ws then ws
      else ws @ [\<lparr>address = addr, source = src\<rparr>])"
  by (simp add: add_batch_def handleSelectWallet_cases)

text \<open>With nothing selected at render time, a handler run appends every call it makes.\<close>

lemma add_batch_empty_render:
  "add_batch [] calls = map (\<lambda>(addr, src). \<lparr>address = addr, source = src\<rparr>) calls"
proof -
  have "foldl (\<lambda>prev (addr, src). handleSelectWallet [] addr src prev) acc calls =
          acc @ map (\<lambda>(addr, src). \<lparr>address = addr, source = src\<rparr>) calls" for acc
    by (induction calls arbitrary: acc) (auto simp: handleSelectWallet_def)
  then show ?thesis by (simp add: add_batch_def)
qed

text \<open>
  C1. The claim asks that every call of \<open>add\<close> leaves the list unchanged when an entry
  with the same address up to case exists, so that "0xAB" followed by "0xab" on the
  empty list leaves one entry. The code does not do this for calls made in one handler
  run: the test reads the list of the last render while the append goes to the pending
  list. With the rendered list empty and ("0xAB", "x") pending, the call for "0xab"
  appends a second entry; select-all in Top Traders over the addresses "0xAB", "0xab"
  stores both; select-all over A, B, A, C stores A twice. Across renders the test works:
  with ("0xAB", "x") rendered, "0xab" changes nothing and "0xAC" is appended.
\<close>

theorem add_batch_appends_duplicate:
  "handleSelectWallet [] ''0xab'' ''y'' [\<lparr>address = ''0xAB'', source = ''x''\<rparr>] =
     [\<lparr>address = ''0xAB'', source = ''x''\<rparr>, \<lparr>address = ''0xab'', source = ''y''\<rparr>]
   \<and> add_batch [] [(''0xAB'', ''Top Traders''), (''0xab'', ''Top Traders'')] =
     [\<lparr>address = ''0xAB'', source = ''Top Traders''\<rparr>, \<lparr>address = ''0xab'', source = ''Top Traders''\<rparr>]
   \<and> add_batch []
       (onSelectWallet_calls ''Top Traders''
          (snd (selectAll
                  [\<lparr>address = ''A''\<rparr>, \<lparr>address = ''B''\<rparr>, \<lparr>address = ''A''\<rparr>, \<lparr>address = ''C''\<rparr>] {}))) =
     [\<lparr>address = ''A'', source = ''Top Traders''\<rparr>, \<lparr>address = ''B'', source = ''Top Traders''\<rparr>,
      \<lparr>address = ''A'', source = ''Top Traders''\<rparr>, \<lparr>address = ''C'', source = ''Top Traders''\<rparr>]
   \<and> handleSelectWallet [\<lparr>address = ''0xAB'', source = ''x''\<rparr>] ''0xab'' ''y''
       [\<lparr>address = ''0xAB'', source = ''x''\<rparr>] = [\<lparr>address = ''0xAB'', source = ''x''\<rparr>]
   \<and> handleSelectWallet [\<lparr>address = ''0xAB'', source = ''x''\<rparr>] ''0xAC'' ''y''
       [\<lparr>address = ''0xAB'', source = ''x''\<rparr>] =
     [\<lparr>address = ''0xAB'', source = ''x''\<rparr>, \<lparr>address = ''0xAC'', source = ''y''\<rparr>]"
  by (simp add: handleSelectWallet_cases add_batch_empty_render onSelectWallet_calls_def
        selectAll_def toLowerCase_0xAB toLowerCase_0xab toLowerCase_examples)

section \<open>Selection Store: toggle\<close>

lemma toggles_member:
  "(a \<in> fst (toggles xs sel)) = ((a \<in> sel) \<noteq> odd (count_list xs a))"
proof (induction xs arbitrary: sel)
  case Nil
  show ?case by simp
next
  case (Cons x xs)
  show ?case
    by (cases "x \<in> sel") (auto simp: toggleSelectTrader_def split_beta Cons.IH)
qed

lemma toggles_calls:
  "(\<And>a. (a \<in> sel) = odd (count_list seen a)) \<Longrightarrow> snd (toggles xs sel) = adding_toggles seen xs"
proof (induction xs arbitrary: sel seen)
  case Nil
  show ?case by simp
next
  case (Cons x xs)
  show ?case
  proof (cases "x \<in> sel")
    case True
    have inv: "\<And>a. (a \<in> sel - {x}) = odd (count_list (seen @ [x]) a)"
      using Cons.prems True by auto
    have "odd (count_list seen x)" using Cons.prems True by simp
    then show ?thesis
      using Cons.IH [OF inv] True by (simp add: toggleSelectTrader_def split_beta)
  next
    case False
    have inv: "\<And>a. (a \<in> insert x sel) = odd (count_list (seen @ [x]) a)"
      using Cons.prems False by auto
    have "even (count_list seen x)" using Cons.prems False by simp
    then show ?thesis
      using Cons.IH [OF inv] False by (simp add: toggleSelectTrader_def split_beta)
  qed
qed

lemma count_adding_toggles:
  "count_list (adding_toggles seen xs) a =
     (count_list xs a + (if even (count_list seen a) then 1 else 0)) div 2"
  by (induction xs arbitrary: seen) auto

text \<open>
  C3. Starting from the empty selection set, after any finite sequence of toggles an
  address is selected exactly when it was toggled an odd number of times, each address
  on its own and compared as an exact string. A toggle of a selected address removes it
  and calls nothing; a toggle of an unselected address adds it and calls \<open>onSelectWallet\<close>
  once with it. So the calls of a sequence are its adding toggles, in order, and an
  address toggled \<open>n\<close> times is announced \<open>(n + 1) div 2\<close> times.
\<close>

theorem toggle_parity_notify_on_add:
  "(a \<in> fst (toggles xs {})) = odd (count_list xs a)
   \<and> toggleSelectTrader sel a = (if a \<in> sel then (sel - {a}, []) else (insert a sel, [a]))
   \<and> snd (toggles xs {}) = adding_toggles [] xs
   \<and> count_list (snd (toggles xs {})) a = (count_list xs a + 1) div 2"
proof -
  have calls: "snd (toggles xs {}) = adding_toggles [] xs"
    by (rule toggles_calls) simp
  show ?thesis
    by (simp add: toggles_member calls count_adding_toggles toggleSelectTrader_def)
qed

theorem toggle_parity_notify_on_add_witness:
  "''A'' \<in> fst (toggles [''A'', ''B'', ''A'', ''a'', ''A''] {})
   \<and> ''B'' \<notin> fst (toggles [''A'', ''B'', ''B''] {})
   \<and> snd (toggles [''A'', ''B'', ''A'', ''B'', ''A''] {}) = [''A'', ''B'', ''A'']"
  using toggle_parity_notify_on_add [of "''A''" "[''A'', ''B'', ''A'', ''a'', ''A'']" "{}"]
    toggle_parity_notify_on_add [of "''B''" "[''A'', ''B'', ''B'']" "{}"]
    toggle_parity_notify_on_add [of "''A''" "[''A'', ''B'', ''A'', ''B'', ''A'']" "{}"]
  by (simp del: toggles.simps)

section \<open>Selection Store: select all\<close>

lemma selectAllVisible_foldl:
  "foldl selectAllVisible_step (S, cs) xs = (S \<union> address ` set xs, cs @ map address xs)"
  by (induction xs arbitrary: S cs) (simp_all add: selectAllVisible_step_def)

lemma selectAll_calls_foldl:
  "foldl (\<lambda>calls t. calls @ [address t]) cs xs = cs @ map address xs"
  by (induction xs arbitrary: cs) simp_all

text \<open>
  C2, as stated, fails. Select-all over the items A, B, A, C with nothing selected calls
  \<open>onSelectWallet\<close> four times (A, B, A, C), where the claim announces A, B, C; and
  select-all over the item A with A already selected calls it for A, where the claim
  announces nothing.
\<close>

theorem selectAll_notifies_counterexample:
  "snd (selectAllVisible
          [\<lparr>address = ''A''\<rparr>, \<lparr>address = ''B''\<rparr>, \<lparr>address = ''A''\<rparr>, \<lparr>address = ''C''\<rparr>] {})
     = [''A'', ''B'', ''A'', ''C'']
   \<and> newly_added {} [''A'', ''B'', ''A'', ''C''] = [''A'', ''B'', ''C'']
   \<and> snd (selectAll [\<lparr>address = ''A''\<rparr>] {''A''}) = [''A'']
   \<and> newly_added {''A''} [''A''] = []"
  by (simp add: selectAllVisible_def selectAllVisible_step_def selectAll_def)

text \<open>
  C2, amended. Select-all calls \<open>onSelectWallet\<close> once for every item of the sequence,
  in iteration order, whether or not the item's address is selected already or occurred
  earlier in the sequence: the calls are the item addresses, in order. This holds for
  \<open>selectAllVisible\<close> (TradeStatistics) and for \<open>selectAll\<close> (TopTraders, WhaleDetection).
\<close>

theorem selectAll_notifies_every_item:
  "snd (selectAllVisible xs S) = map address xs \<and> snd (selectAll xs S) = map address xs"
  by (simp add: selectAllVisible_def selectAllVisible_foldl selectAll_def selectAll_calls_foldl)

text \<open>
  C5, as stated, fails for \<open>selectAll\<close> of TopTraders and WhaleDetection: with Z selected
  and the single item A listed, the selection afterwards is {A}, not {Z, A}.
\<close>

theorem selectAll_membership_counterexample:
  "fst (selectAll [\<lparr>address = ''A''\<rparr>] {''Z''}) = {''A''}
   \<and> fst (selectAll [\<lparr>address = ''A''\<rparr>] {''Z''}) \<noteq> {''Z''} \<union> address ` set [\<lparr>address = ''A''\<rparr>]"
  by (auto simp add: selectAll_def)

text \<open>
  C5, amended. After \<open>selectAllVisible\<close> (TradeStatistics) the selection is the union of
  the prior selection and the addresses of the items. After \<open>selectAll\<close> (TopTraders,
  WhaleDetection) the selection is exactly the set of the addresses of the items: every
  item address is selected, and a previously selected address stays selected only when
  it is the address of an item.
\<close>

theorem selectAll_membership:
  "fst (selectAllVisible xs S) = S \<union> address ` set xs
   \<and> fst (selectAll xs S) = address ` set xs"
  by (simp add: selectAllVisible_def selectAllVisible_foldl selectAll_def)

section \<open>Wallet Aggregator: export\<close>

lemma digit_chars:
  "digit_char 0 = CHR ''0''" "digit_char 1 = CHR ''1''" "digit_char 2 = CHR ''2''"
  "digit_char 3 = CHR ''3''" "digit_char 4 = CHR ''4''" "digit_char 5 = CHR ''5''"
  "digit_char 6 = CHR ''6''" "digit_char 7 = CHR ''7''" "digit_char 8 = CHR ''8''"
  "digit_char 9 = CHR ''9''" "digit_char (Suc 0) = CHR ''1''"
  by code_simp+

lemma show_example_now: "show_int (now example_platform) = ''1700000000000''"
  by (simp add: example_platform_def show_int_def digit_chars show_nat.simps)

lemma show_later_now: "show_int (now later_platform) = ''1700000086400''"
  by (simp add: later_platform_def show_int_def digit_chars show_nat.simps)

lemma of_char_digit_char: "d < 10 \<Longrightarrow> (of_char (digit_char d) :: nat) = 48 + d"
  by (simp add: digit_char_def)

lemma digit_value_digit_char: "d < 10 \<Longrightarrow> digit_value (digit_char d) = d"
  by (simp add: digit_value_def of_char_digit_char)

lemma digit_char_not_minus: "d < 10 \<Longrightarrow> digit_char d \<noteq> CHR ''-''"
proof
  assume "d < 10" and "digit_char d = CHR ''-''"
  then have "(48 + d) = (of_char (CHR ''-'') :: nat)"
    using of_char_digit_char [of d] by simp
  then show False by simp
qed

lemma read_nat_snoc: "read_nat (s @ [c]) = 10 * read_nat s + digit_value c"
  by (simp add: read_nat_def)

lemma read_show_nat: "read_nat (show_nat n) = n"
proof (induction n rule: show_nat.induct)
  case (1 n)
  show ?case
  proof (cases "n < 10")
    case True
    then show ?thesis
      by (subst show_nat.simps) (simp add: read_nat_def digit_value_digit_char)
  next
    case False
    then have "read_nat (show_nat (n div 10)) = n div 10"
      using "1.IH" by simp
    with False show ?thesis
      by (subst show_nat.simps) (simp add: read_nat_snoc digit_value_digit_char)
  qed
qed

lemma show_nat_head: "show_nat n \<noteq> [] \<and> hd (show_nat n) \<noteq> CHR ''-''"
proof (induction n rule: show_nat.induct)
  case (1 n)
  show ?case
  proof (cases "n < 10")
    case True
    then show ?thesis
      by (subst (1 2) show_nat.simps) (simp add: digit_char_not_minus)
  next
    case False
    then have "show_nat (n div 10) \<noteq> [] \<and> hd (show_nat (n div 10)) \<noteq> CHR ''-''"
      using "1.IH" by simp
    with False show ?thesis
      by (subst (1 2) show_nat.simps) simp
  qed
qed

lemma read_show_int: "read_int (show_int i) = i"
  using show_nat_head [of "nat i"]
  by (simp add: read_int_def show_int_def read_show_nat)

lemma split_on_no_sep: "c \<notin> set s \<Longrightarrow> split_on c s = [s]"
  by (induction s) auto

lemma split_on_append_sep:
  "c \<notin> set a \<Longrightarrow> split_on c (a @ c # rest) = a # split_on c rest"
  by (induction a) auto

lemma split_join:
  "xs \<noteq> [] \<Longrightarrow> \<forall>x \<in> set xs. c \<notin> set x \<Longrightarrow> split_on c (join [c] xs) = xs"
proof (induction "[c]" xs rule: join.induct)
  case 1
  then show ?case by simp
next
  case (2 x)
  then show ?case by (simp add: split_on_no_sep)
next
  case (3 x y ys)
  then show ?case by (simp add: split_on_append_sep)
qed

text \<open>
  C6. On a non-empty list the txt export is the file
  \<open>wallet_addresses_<epoch-ms>.txt\<close> whose content is the addresses, in list order and
  as stored, joined by single newlines and nothing else: read back line by line it is
  the list of addresses (when no address contains a newline). The csv and json exports
  are named \<open>hyperliquid_wallets_<epoch-ms>.csv\<close> and \<open>.json\<close>. In each name
  \<open><epoch-ms>\<close> is the decimal numeral of the clock: read back as a number it is the
  clock value, whatever the clock. On the entries 0x1, 0x2 the txt content is 0x1,
  newline, 0x2.
\<close>

theorem export_txt_lines:
  "(ws \<noteq> [] \<longrightarrow>
      saveWalletsToFile pf ws ''txt'' =
        Some \<lparr>filename = ''wallet_addresses_'' @ show_int (now pf) @ ''.txt'',
              mimeType = ''text/plain'',
              content = join newline (map address ws)\<rparr>
      \<and> ((\<forall>w \<in> set ws. CHR 0x0A \<notin> set (address w)) \<longrightarrow>
           split_on (CHR 0x0A) (join newline (map address ws)) = map address ws)
      \<and> map_option filename (saveWalletsToFile pf ws ''csv'') =
           Some (''hyperliquid_wallets_'' @ show_int (now pf) @ ''.csv'')
      \<and> map_option filename (saveWalletsToFile pf ws ''json'') =
           Some (''hyperliquid_wallets_'' @ show_int (now pf) @ ''.json''))
   \<and> read_int (show_int (now pf)) = now pf
   \<and> map_option content
        (saveWalletsToFile pf [\<lparr>address = ''0x1'', source = s1\<rparr>, \<lparr>address = ''0x2'', source = s2\<rparr>]
           ''txt'') = Some ''0x1\<newline>0x2''"
  by (simp add: saveWalletsToFile_def newline_def split_join read_show_int)

theorem export_txt_lines_witness:
  "saveWalletsToFile example_platform
     [\<lparr>address = ''0x1'', source = ''Top Traders''\<rparr>, \<lparr>address = ''0x2'', source = ''Whale Detection''\<rparr>]
     ''txt'' =
     Some \<lparr>filename = ''wallet_addresses_1700000000000.txt'', mimeType = ''text/plain'',
           content = ''0x1\<newline>0x2''\<rparr>
   \<and> split_on (CHR 0x0A) ''0x1\<newline>0x2'' = [''0x1'', ''0x2'']
   \<and> map_option filename (saveWalletsToFile example_platform
        [\<lparr>address = ''0x1'', source = ''Top Traders''\<rparr>, \<lparr>address = ''0x2'', source = ''Whale Detection''\<rparr>]
        ''csv'') = Some ''hyperliquid_wallets_1700000000000.csv''
   \<and> map_option filename (saveWalletsToFile example_platform
        [\<lparr>address = ''0x1'', source = ''Top Traders''\<rparr>, \<lparr>address = ''0x2'', source = ''Whale Detection''\<rparr>]
        ''json'') = Some ''hyperliquid_wallets_1700000000000.json''
   \<and> read_int ''1700000000000'' = 1700000000000
   \<and> map_option filename (saveWalletsToFile later_platform
        [\<lparr>address = ''0x1'', source = ''Top Traders''\<rparr>] ''txt'')
        = Some ''wallet_addresses_1700000086400.txt''
   \<and> map_option filename (saveWalletsToFile later_platform
        [\<lparr>address = ''0x1'', source = ''Top Traders''\<rparr>] ''json'')
        = Some ''hyperliquid_wallets_1700000086400.json''
   \<and> read_int ''1700000086400'' = 1700000086400"
  using export_txt_lines [of
      "[\<lparr>address = ''0x1'', source = ''Top Traders''\<rparr>, \<lparr>address = ''0x2'', source = ''Whale Detection''\<rparr>]"
      example_platform]
    export_txt_lines [of "[\<lparr>address = ''0x1'', source = ''Top Traders''\<rparr>]" later_platform]
  by (simp add: show_example_now show_later_now newline_def)
     (simp add: example_platform_def later_platform_def)

text \<open>
  C7. On the empty list the export returns at once for every format: no file is built
  or emitted, the function has no error outcome, and the list of selected wallets is
  the same afterwards.
\<close>

theorem export_empty_noop:
  "saveWalletsToFile pf [] format = None
   \<and> app_step pf (SaveWalletsToFile format) [] = ([], [])"
  by (simp add: saveWalletsToFile_def)



section \<open>Refresh Scheduler\<close>

lemma run_append: "run (xs @ ys) st = run ys (run xs st)"
  by (simp add: run_def)

lemma run_Cons: "run (e # es) st = run es (apply_effect st e)"
  by (simp add: run_def)

lemma run_Nil: "run [] st = st"
  by (simp add: run_def)

lemma load_stats_calls:
  "fst (load_stats f lb as m) = map (\<lambda>a. Await (FetchUserTrades a)) (until_rejected f as)"
  by (induction as arbitrary: m) (simp_all add: split_beta split: sum.splits)

lemma load_stats_rejects:
  "isl (snd (load_stats f lb as m)) = (\<exists>a \<in> set as. isl (f a))"
  by (induction as arbitrary: m) (auto simp: split_beta split: sum.splits)

lemma load_stats_Inl:
  "\<exists>a \<in> set as. isl (f a) \<Longrightarrow> \<exists>r. snd (load_stats f lb as m) = Inl r"
  using load_stats_rejects [of f lb as m] by (cases "snd (load_stats f lb as m)") simp_all

lemma run_awaits: "run (map (\<lambda>a. Await (FetchUserTrades a)) as) st = st"
  by (induction as) (simp_all add: run_def)

lemma filter_awaits:
  "filter is_SetLoading (map (\<lambda>a. Await (FetchUserTrades a)) as) = []"
  by (induction as) simp_all

lemma loadTraders_bracket:
  "filter is_SetLoading (loadTraders fl ft sb mp mr) = [SetLoading True, SetLoading False]
   \<and> loading (run (before_fetch (loadTraders fl ft sb mp mr)) st)
   \<and> list_ex is_Await (loadTraders fl ft sb mp mr)
   \<and> last (loadTraders fl ft sb mp mr) = SetLoading False
   \<and> \<not> loading (run (loadTraders fl ft sb mp mr) st)"
  by (simp add: loadTraders_def before_fetch_def run_def split: sum.splits)

lemma loadWhales_bracket:
  "filter is_SetLoading (loadWhales fw mb) = [SetLoading True, SetLoading False]
   \<and> loading (run (before_fetch (loadWhales fw mb)) st)
   \<and> list_ex is_Await (loadWhales fw mb)
   \<and> last (loadWhales fw mb) = SetLoading False
   \<and> \<not> loading (run (loadWhales fw mb) st)"
  by (simp add: loadWhales_def before_fetch_def run_def split: sum.splits)

lemma loadPositions_bracket:
  "filter is_SetLoading (loadPositions fl fp clock) = [SetLoading True, SetLoading False]
   \<and> loading (run (before_fetch (loadPositions fl fp clock)) st)
   \<and> list_ex is_Await (loadPositions fl fp clock)
   \<and> last (loadPositions fl fp clock) = SetLoading False
   \<and> \<not> loading (run (loadPositions fl fp clock) st)"
  by (simp add: loadPositions_def before_fetch_def run_def split: sum.splits)

lemma loadData_bracket:
  "filter is_SetLoading (loadData fl fu) = [SetLoading True, SetLoading False]
   \<and> loading (run (before_fetch (loadData fl fu)) st)
   \<and> list_ex is_Await (loadData fl fu)
   \<and> last (loadData fl fu) = SetLoading False
   \<and> \<not> loading (run (loadData fl fu) st)"
proof -
  have shape: "\<exists>mid. loadData fl fu =
        [SetLoading True, Await (FetchLeaderboard 100)] @ mid @ [SetLoading False]
      \<and> filter is_SetLoading mid = [] \<and> (\<forall>s. loading (run mid s) = loading s)"
  proof (cases "fl 100")
    case (Inl r)
    then show ?thesis by (simp add: loadData_def run_def)
  next
    case (Inr lb)
    obtain effs res where ls: "load_stats fu lb (map address (take 30 lb)) [] = (effs, res)"
      by (cases "load_stats fu lb (map address (take 30 lb)) []")
    have effs: "effs = map (\<lambda>a. Await (FetchUserTrades a))
                         (until_rejected fu (map address (take 30 lb)))"
      using load_stats_calls [of fu lb "map address (take 30 lb)" "[]"] ls by simp
    show ?thesis
      using Inr ls
      by (cases res)
         (simp_all add: loadData_def effs filter_awaits run_append run_awaits run_Cons run_Nil)
  qed
  then obtain mid where
      mid: "loadData fl fu = [SetLoading True, Await (FetchLeaderboard 100)] @ mid @ [SetLoading False]"
    and nol: "filter is_SetLoading mid = []"
    and keep: "\<And>s. loading (run mid s) = loading s"
    by blast
  show ?thesis
    by (simp add: mid nol keep before_fetch_def run_append run_Cons run_Nil)
qed

lemma loadData_rejected_trades:
  assumes "fl 100 = Inr lb" and "\<exists>a \<in> set (map address (take 30 lb)). isl (fu a)"
  shows "\<exists>r. loadData fl fu =
           [SetLoading True, Await (FetchLeaderboard 100)]
           @ map (\<lambda>a. Await (FetchUserTrades a)) (until_rejected fu (map address (take 30 lb)))
           @ [ConsoleError ''Error loading data:'' r, SetLoading False]"
proof -
  obtain effs res where ls: "load_stats fu lb (map address (take 30 lb)) [] = (effs, res)"
    by (cases "load_stats fu lb (map address (take 30 lb)) []")
  have effs: "effs = map (\<lambda>a. Await (FetchUserTrades a))
                       (until_rejected fu (map address (take 30 lb)))"
    using load_stats_calls [of fu lb "map address (take 30 lb)" "[]"] ls by simp
  obtain r where "res = Inl r"
    using load_stats_Inl [OF assms(2), of lb "[]"] ls by auto
  then show ?thesis
    using assms(1) ls effs by (simp add: loadData_def)
qed

text \<open>
  C4, as stated, fails. In the live-positions view, whose data was fetched before, a
  rejected leaderboard call is caught and written to the console; the run sets no error
  message and leaves the whole view state as it was.
\<close>

theorem fetch_failure_message_counterexample:
  "loadPositions failing_leaderboard failing_positions 7 =
     [SetLoading True, Await (FetchLeaderboard 50),
      ConsoleError ''Error loading positions:'' ''network down'', SetLoading False]
   \<and> run (loadPositions failing_leaderboard failing_positions 7) loaded_positions = loaded_positions
   \<and> error (run (loadPositions failing_leaderboard failing_positions 7) loaded_positions) = None"
  by (simp add: loadPositions_def failing_leaderboard_def run_def loaded_positions_def)

text \<open>
  C4, amended. In every view a rejected fetch is caught: the run ends with loading
  cleared, the previously fetched data unchanged, and no provider call after the
  rejected one. TopTraders and WhaleDetection store a fixed message in their error state
  ("Error loading traders data", "Error loading whale data"). TradeStatistics and
  LivePositions have no error state: they write the failure to the console and change
  nothing but the loading flag. The cases are: the leaderboard call of TopTraders; the
  whale call; the leaderboard call and the live-positions call of LivePositions; the
  leaderboard call and some per-address call of TradeStatistics.
\<close>

theorem fetch_failure_caught:
  "(fl mr = Inl r \<longrightarrow>
      loadTraders fl ft sb mp mr =
        [SetLoading True, SetError None, Await (FetchLeaderboard mr),
         SetError (Some ''Error loading traders data''), SetLoading False]
      \<and> run (loadTraders fl ft sb mp mr) st =
          st\<lparr>loading := False, error := Some ''Error loading traders data''\<rparr>)
   \<and> (fw mb = Inl r \<longrightarrow>
      loadWhales fw mb =
        [SetLoading True, SetError None, Await (FetchWhales mb),
         SetError (Some ''Error loading whale data''), SetLoading False]
      \<and> run (loadWhales fw mb) sw = sw\<lparr>loading := False, error := Some ''Error loading whale data''\<rparr>)
   \<and> (fl 50 = Inl r \<longrightarrow>
      loadPositions fl fp clock =
        [SetLoading True, Await (FetchLeaderboard 50),
         ConsoleError ''Error loading positions:'' r, SetLoading False]
      \<and> run (loadPositions fl fp clock) sp = sp\<lparr>loading := False\<rparr>)
   \<and> (fl 50 = Inr traders \<and> fp (map address traders) = Inl r \<longrightarrow>
      loadPositions fl fp clock =
        [SetLoading True, Await (FetchLeaderboard 50),
         Await (FetchLivePositions (map address traders)),
         ConsoleError ''Error loading positions:'' r, SetLoading False]
      \<and> run (loadPositions fl fp clock) sp = sp\<lparr>loading := False\<rparr>)
   \<and> (fl 100 = Inl r \<longrightarrow>
      loadData fl fu =
        [SetLoading True, Await (FetchLeaderboard 100),
         ConsoleError ''Error loading data:'' r, SetLoading False]
      \<and> run (loadData fl fu) sd = sd\<lparr>loading := False\<rparr>)
   \<and> (fl 100 = Inr lb \<and> (\<exists>a \<in> set (map address (take 30 lb)). isl (fu a)) \<longrightarrow>
      (\<exists>r'. loadData fl fu =
         [SetLoading True, Await (FetchLeaderboard 100)]
         @ map (\<lambda>a. Await (FetchUserTrades a)) (until_rejected fu (map address (take 30 lb)))
         @ [ConsoleError ''Error loading data:'' r', SetLoading False])
      \<and> run (loadData fl fu) sd = sd\<lparr>loading := False\<rparr>)"
proof (intro conjI impI)
  assume a: "fl 100 = Inr lb \<and> (\<exists>a \<in> set (map address (take 30 lb)). isl (fu a))"
  then obtain r' where t: "loadData fl fu =
         [SetLoading True, Await (FetchLeaderboard 100)]
         @ map (\<lambda>a. Await (FetchUserTrades a)) (until_rejected fu (map address (take 30 lb)))
         @ [ConsoleError ''Error loading data:'' r', SetLoading False]"
    using loadData_rejected_trades [of fl lb fu] by blast
  then show "\<exists>r'. loadData fl fu =
         [SetLoading True, Await (FetchLeaderboard 100)]
         @ map (\<lambda>a. Await (FetchUserTrades a)) (until_rejected fu (map address (take 30 lb)))
         @ [ConsoleError ''Error loading data:'' r', SetLoading False]"
    by blast
  show "run (loadData fl fu) sd = sd\<lparr>loading := False\<rparr>"
    by (simp add: t run_append run_awaits run_Cons run_Nil)
qed (simp_all add: loadTraders_def loadWhales_def loadPositions_def loadData_def run_def)

theorem fetch_failure_caught_witness:
  "run (loadTraders failing_leaderboard FilterAll SortPnl 0 50) loaded_traders =
     loaded_traders\<lparr>error := Some ''Error loading traders data''\<rparr>
   \<and> run (loadWhales failing_whales 500000) loaded_whales =
     loaded_whales\<lparr>error := Some ''Error loading whale data''\<rparr>
   \<and> run (loadPositions failing_leaderboard failing_positions 7) loaded_positions = loaded_positions
   \<and> run (loadPositions example_leaderboard failing_positions 7) loaded_positions = loaded_positions
   \<and> run (loadData failing_leaderboard failing_trades) loaded_stats = loaded_stats
   \<and> run (loadData example_leaderboard failing_trades) loaded_stats = loaded_stats"
proof -
  have h1: "failing_leaderboard 50 = Inl ''network down''"
    and h3: "failing_leaderboard 100 = Inl ''network down''"
    by (simp_all add: failing_leaderboard_def)
  have h2: "failing_whales 500000 = Inl ''network down''"
    by (simp add: failing_whales_def)
  have e50: "example_leaderboard 50 = Inr example_traders"
    and e100: "example_leaderboard 100 = Inr example_traders"
    by (simp_all add: example_leaderboard_def)
  have h4: "failing_positions (map address example_traders) = Inl ''timeout''"
    by (simp add: failing_positions_def)
  have h5: "\<exists>a \<in> set (map address (take 30 example_traders)). isl (failing_trades a)"
    by (simp add: failing_trades_def example_traders_def)
  note failing = fetch_failure_caught [where fl = failing_leaderboard and mr = 50
        and r = "''network down''"
        and ft = FilterAll and sb = SortPnl and mp = 0 and st = loaded_traders
        and fw = failing_whales and mb = 500000 and sw = loaded_whales
        and fp = failing_positions and clock = 7 and sp = loaded_positions
        and fu = failing_trades and sd = loaded_stats]
  note partly = fetch_failure_caught [where fl = example_leaderboard and mr = 50
        and r = "''timeout''"
        and ft = FilterAll and sb = SortPnl and mp = 0 and st = loaded_traders
        and fw = failing_whales and mb = 500000 and sw = loaded_whales
        and traders = example_traders and lb = example_traders
        and fp = failing_positions and clock = 7 and sp = loaded_positions
        and fu = failing_trades and sd = loaded_stats]
  have w1: "run (loadTraders failing_leaderboard FilterAll SortPnl 0 50) loaded_traders =
              loaded_traders\<lparr>loading := False, error := Some ''Error loading traders data''\<rparr>"
    using failing h1 by blast
  have w2: "run (loadWhales failing_whales 500000) loaded_whales =
              loaded_whales\<lparr>loading := False, error := Some ''Error loading whale data''\<rparr>"
    using failing h2 by blast
  have w3: "run (loadPositions failing_leaderboard failing_positions 7) loaded_positions =
              loaded_positions\<lparr>loading := False\<rparr>"
    using failing h1 by blast
  have w4: "run (loadPositions example_leaderboard failing_positions 7) loaded_positions =
              loaded_positions\<lparr>loading := False\<rparr>"
    using partly e50 h4 by blast
  have w5: "run (loadData failing_leaderboard failing_trades) loaded_stats =
              loaded_stats\<lparr>loading := False\<rparr>"
    using failing h3 by blast
  have w6: "run (loadData example_leaderboard failing_trades) loaded_stats =
              loaded_stats\<lparr>loading := False\<rparr>"
    using partly e100 h5 by blast
  show ?thesis
    unfolding w1 w2 w3 w4 w5 w6
    by (simp add: loaded_traders_def loaded_whales_def loaded_positions_def loaded_stats_def)
qed

text \<open>
  C9. In each of the four views a run of the load function writes the loading flag
  exactly twice: \<open>true\<close> first, so that loading is set when the first provider call is
  issued, and \<open>false\<close> as its last effect, after every provider call has settled. This
  holds whatever the provider answers, success or rejection, and a provider call is
  always issued.
\<close>

theorem loading_brackets_fetch:
  "(filter is_SetLoading (loadTraders fl ft sb mp mr) = [SetLoading True, SetLoading False]
    \<and> loading (run (before_fetch (loadTraders fl ft sb mp mr)) st)
    \<and> list_ex is_Await (loadTraders fl ft sb mp mr)
    \<and> last (loadTraders fl ft sb mp mr) = SetLoading False
    \<and> \<not> loading (run (loadTraders fl ft sb mp mr) st))
   \<and> (filter is_SetLoading (loadWhales fw mb) = [SetLoading True, SetLoading False]
    \<and> loading (run (before_fetch (loadWhales fw mb)) sw)
    \<and> list_ex is_Await (loadWhales fw mb)
    \<and> last (loadWhales fw mb) = SetLoading False
    \<and> \<not> loading (run (loadWhales fw mb) sw))
   \<and> (filter is_SetLoading (loadPositions fl fp clock) = [SetLoading True, SetLoading False]
    \<and> loading (run (before_fetch (loadPositions fl fp clock)) sp)
    \<and> list_ex is_Await (loadPositions fl fp clock)
    \<and> last (loadPositions fl fp clock) = SetLoading False
    \<and> \<not> loading (run (loadPositions fl fp clock) sp))
   \<and> (filter is_SetLoading (loadData fl fu) = [SetLoading True, SetLoading False]
    \<and> loading (run (before_fetch (loadData fl fu)) sd)
    \<and> list_ex is_Await (loadData fl fu)
    \<and> last (loadData fl fu) = SetLoading False
    \<and> \<not> loading (run (loadData fl fu) sd))"
  using loadTraders_bracket [of fl ft sb mp mr st] loadWhales_bracket [of fw mb sw]
    loadPositions_bracket [of fl fp clock sp] loadData_bracket [of fl fu sd]
  by blast

section \<open>Trade Statistics: the best-win-rate ranking\<close>











end
